theory Spec2Isabelle
  imports Complex_Main
begin

section \<open>JavaScript values\<close>

text \<open>
  The job/bookmark state manager (\<^verbatim>\<open>JobProvider\<close> in \<^verbatim>\<open>JobContext\<close>) handles values that
  come out of \<^verbatim>\<open>JSON.parse\<close> and \<^verbatim>\<open>response.json()\<close> and object literals built from
  them. A value is \<^verbatim>\<open>undefined\<close>, \<^verbatim>\<open>null\<close>, a boolean, a number, a string, an array or a
  plain object. Every finite number of the program is a rational, so numbers are \<open>rat\<close>
  (\<^verbatim>\<open>NaN\<close> and the infinities, which no JSON text denotes exactly, are left out). An object
  is the list of its own properties in insertion order.
\<close>

datatype jsval =
    Undefined
  | Null
  | Bool bool
  | Num rat
  | Str string
  | Arr "jsval list"
  | Obj "(string \<times> jsval) list"

datatype js_error =
    TypeError
  | SyntaxError
  | StorageError
  | Error string

text \<open>Truthiness, as \<^verbatim>\<open>if (v)\<close>, \<^verbatim>\<open>a && b\<close> and \<^verbatim>\<open>a || b\<close> test it.\<close>

fun truthy :: "jsval \<Rightarrow> bool" where
  "truthy Undefined = False"
| "truthy Null = False"
| "truthy (Bool b) = b"
| "truthy (Num n) = (n \<noteq> 0)"
| "truthy (Str s) = (s \<noteq> [])"
| "truthy (Arr xs) = True"
| "truthy (Obj kvs) = True"

text \<open>\<^verbatim>\<open>a || b\<close>: the left operand when it is truthy, the right one otherwise.\<close>

definition js_or :: "jsval \<Rightarrow> jsval \<Rightarrow> jsval" where
  "js_or a b = (if truthy a then a else b)"

fun nullish :: "jsval \<Rightarrow> bool" where
  "nullish Undefined = True"
| "nullish Null = True"
| "nullish v = False"

fun is_number :: "jsval \<Rightarrow> bool" where
  "is_number (Num n) = True"
| "is_number v = False"

fun isArray :: "jsval \<Rightarrow> bool" where
  "isArray (Arr xs) = True"
| "isArray v = False"

fun is_object :: "jsval \<Rightarrow> bool" where
  "is_object Null = True"
| "is_object (Arr xs) = True"
| "is_object (Obj kvs) = True"
| "is_object v = False"

fun primitive :: "jsval \<Rightarrow> bool" where
  "primitive (Arr xs) = False"
| "primitive (Obj kvs) = False"
| "primitive v = True"

text \<open>
  \<^verbatim>\<open>v.k\<close> on a value that is neither \<^verbatim>\<open>null\<close> nor \<^verbatim>\<open>undefined\<close>: an own property of a
  plain object, and \<^verbatim>\<open>undefined\<close> otherwise (none of the property names the program reads
  is defined on the prototypes of arrays, strings, numbers or booleans).
\<close>

fun prop_of :: "jsval \<Rightarrow> string \<Rightarrow> jsval" where
  "prop_of (Obj kvs) k = (case map_of kvs k of None \<Rightarrow> Undefined | Some v \<Rightarrow> v)"
| "prop_of v k = Undefined"

text \<open>\<^verbatim>\<open>v.k\<close> in general: reading a property of \<^verbatim>\<open>null\<close> or \<^verbatim>\<open>undefined\<close> throws.\<close>

definition get :: "jsval \<Rightarrow> string \<Rightarrow> js_error + jsval" where
  "get v k = (if nullish v then Inl TypeError else Inr (prop_of v k))"

text \<open>
  \<^verbatim>\<open>a === b\<close>. Primitives are equal when they have the same type and the same value.
  Two arrays or objects are equal only when they are the same reference, which a value
  does not record: they compare as unequal, as values from two parses do. The theorems
  below are about primitive identifiers, where this choice plays no part.
\<close>

fun strict_eq :: "jsval \<Rightarrow> jsval \<Rightarrow> bool" where
  "strict_eq Undefined Undefined = True"
| "strict_eq Null Null = True"
| "strict_eq (Bool a) (Bool b) = (a = b)"
| "strict_eq (Num a) (Num b) = (a = b)"
| "strict_eq (Str a) (Str b) = (a = b)"
| "strict_eq a b = False"

text \<open>
  The spread \<^verbatim>\<open>...v\<close> inside an array literal: the elements of an array, the characters
  of a string, and a \<^verbatim>\<open>TypeError\<close> for every value that is not iterable.
\<close>

fun spread :: "jsval \<Rightarrow> js_error + jsval list" where
  "spread (Arr xs) = Inr xs"
| "spread (Str s) = Inr (map (\<lambda>c. Str [c]) s)"
| "spread v = Inl TypeError"

section \<open>Serialized text\<close>

text \<open>
  The storage holds strings. A string is represented by what the program can observe of
  it: it is empty (falsy), or \<^verbatim>\<open>JSON.parse\<close> rejects it, or \<^verbatim>\<open>JSON.parse\<close> returns a value.
\<close>

datatype stored =
    Blank
  | Malformed
  | Json jsval

definition JSON_parse :: "stored \<Rightarrow> js_error + jsval" where
  "JSON_parse t = (case t of Json v \<Rightarrow> Inr v | _ \<Rightarrow> Inl SyntaxError)"

text \<open>
  What \<^verbatim>\<open>JSON.stringify\<close> keeps of a value: a property whose value is \<^verbatim>\<open>undefined\<close> is
  dropped from its object, and \<^verbatim>\<open>undefined\<close> inside an array is written as \<^verbatim>\<open>null\<close>.
\<close>

primrec json_image :: "jsval \<Rightarrow> jsval" where
  "json_image Undefined = Undefined"
| "json_image Null = Null"
| "json_image (Bool b) = Bool b"
| "json_image (Num n) = Num n"
| "json_image (Str s) = Str s"
| "json_image (Arr xs) =
     Arr (map (\<lambda>x. if x = Undefined then Null else x) (map json_image xs))"
| "json_image (Obj kvs) =
     Obj (filter (\<lambda>kv. snd kv \<noteq> Undefined) (map (map_prod id json_image) kvs))"

definition JSON_stringify :: "jsval \<Rightarrow> stored" where
  "JSON_stringify v = Json (json_image v)"

section \<open>AsyncStorage\<close>

text \<open>
  The key-value store behind \<^verbatim>\<open>AsyncStorage\<close>. Each call may be rejected by the
  platform: \<open>faults\<close> is the script of the coming calls, one flag per call (\<open>True\<close>: the
  call is rejected and changes nothing), and a call past the end of the script succeeds.
  \<open>calls\<close> is the log of the calls made so far.
\<close>

datatype call =
    GetItem string
  | SetItem string stored
  | RemoveItem string

record storage =
  items :: "string \<rightharpoonup> stored"
  faults :: "bool list"
  calls :: "call list"

definition next_fault :: "storage \<Rightarrow> bool" where
  "next_fault sto = (case faults sto of [] \<Rightarrow> False | f # fs \<Rightarrow> f)"

definition issue :: "call \<Rightarrow> storage \<Rightarrow> storage" where
  "issue c sto = sto\<lparr>faults := tl (faults sto), calls := calls sto @ [c]\<rparr>"

definition getItem :: "string \<Rightarrow> storage \<Rightarrow> (js_error + stored option) \<times> storage" where
  "getItem k sto =
     (if next_fault sto then (Inl StorageError, issue (GetItem k) sto)
      else (Inr (items sto k), issue (GetItem k) sto))"

definition setItem :: "string \<Rightarrow> stored \<Rightarrow> storage \<Rightarrow> (js_error + unit) \<times> storage" where
  "setItem k t sto =
     (if next_fault sto then (Inl StorageError, issue (SetItem k t) sto)
      else (Inr (), (issue (SetItem k t) sto)\<lparr>items := (items sto)(k \<mapsto> t)\<rparr>))"

definition removeItem :: "string \<Rightarrow> storage \<Rightarrow> (js_error + unit) \<times> storage" where
  "removeItem k sto =
     (if next_fault sto then (Inl StorageError, issue (RemoveItem k) sto)
      else (Inr (), (issue (RemoveItem k) sto)\<lparr>items := (items sto)(k := None)\<rparr>))"

text \<open>\<^verbatim>\<open>if (stored)\<close> on the result of \<^verbatim>\<open>getItem\<close>: \<^verbatim>\<open>null\<close> and the empty string are falsy.\<close>

fun has_data :: "stored option \<Rightarrow> bool" where
  "has_data None = False"
| "has_data (Some Blank) = False"
| "has_data (Some t) = True"

abbreviation primary_key :: string where
  "primary_key \<equiv> ''jobBookmarks''"

abbreviation backup_key :: string where
  "backup_key \<equiv> ''jobBookmarks_backup''"

section \<open>The provider's state\<close>

text \<open>
  The five \<^verbatim>\<open>useState\<close> cells of \<^verbatim>\<open>JobProvider\<close>, and the titles of the alerts shown.
  Haptic feedback has no effect on the state and is left out.
\<close>

record app_state =
  bookmarks :: jsval
  jobs :: jsval
  loading :: bool
  error :: "string option"
  currentPage :: int
  alerts :: "string list"

definition initial_state :: app_state where
  "initial_state =
     \<lparr>bookmarks = Arr [], jobs = Arr [], loading = True, error = None, currentPage = 1,
      alerts = []\<rparr>"

section \<open>loadBookmarks\<close>

text \<open>The \<^verbatim>\<open>try\<close> block of \<^verbatim>\<open>loadBookmarks\<close>.\<close>

definition loadBookmarks_try ::
  "app_state \<Rightarrow> storage \<Rightarrow> (js_error + unit) \<times> app_state \<times> storage" where
  "loadBookmarks_try st sto =
     (let st1 = st\<lparr>loading := True\<rparr> in
      case getItem primary_key sto of
        (Inl e, sto1) \<Rightarrow> (Inl e, st1, sto1)
      | (Inr storedBookmarks, sto1) \<Rightarrow>
          (case storedBookmarks of
             Some t \<Rightarrow>
               (if has_data storedBookmarks then
                  (case JSON_parse t of
                     Inl e \<Rightarrow> (Inl e, st1, sto1)
                   | Inr v \<Rightarrow> (Inr (), st1\<lparr>bookmarks := v\<rparr>, sto1))
                else (Inr (), st1, sto1))
           | None \<Rightarrow> (Inr (), st1, sto1)))"

text \<open>
  \<^verbatim>\<open>loadBookmarks(retryCount)\<close>. The retry is \<^verbatim>\<open>return loadBookmarks(retryCount + 1)\<close>,
  not awaited: what the inner call returns or throws is what the outer call returns or
  throws, after the outer \<^verbatim>\<open>finally\<close> has cleared the loading flag.
\<close>

function loadBookmarks ::
  "nat \<Rightarrow> app_state \<Rightarrow> storage \<Rightarrow> (js_error + unit) \<times> app_state \<times> storage" where
  "loadBookmarks retryCount st sto =
     (case loadBookmarks_try st sto of
        (Inr u, st1, sto1) \<Rightarrow> (Inr u, st1\<lparr>loading := False\<rparr>, sto1)
      | (Inl err, st1, sto1) \<Rightarrow>
          (if retryCount = 0 then
             (case removeItem primary_key sto1 of
                (Inr u, sto2) \<Rightarrow>
                  (case loadBookmarks (retryCount + 1) st1 sto2 of
                     (r, st3, sto3) \<Rightarrow> (r, st3\<lparr>loading := False\<rparr>, sto3))
              | (Inl clearError, sto2) \<Rightarrow>
                  (Inr (),
                   st1\<lparr>error := Some ''Failed to load saved jobs'', loading := False\<rparr>,
                   sto2))
           else
             (Inr (),
              st1\<lparr>error := Some ''Failed to load saved jobs'', loading := False\<rparr>,
              sto1)))"
  by pat_completeness auto
termination
  by (relation "measure (\<lambda>(retryCount, st, sto). 1 - retryCount)") auto

declare loadBookmarks.simps [simp del]

section \<open>fetchJobs\<close>

text \<open>
  What one \<^verbatim>\<open>GET .../jobs?page=n\<close> brings back: the request itself fails, or a response
  arrives with its \<^verbatim>\<open>ok\<close> flag and the result of \<^verbatim>\<open>response.json()\<close> (\<open>None\<close>: the body
  is not JSON).
\<close>

datatype response =
    NetworkFailure
  | Response bool "jsval option"

text \<open>The extraction of the job array from the body (the source's \<^verbatim>\<open>jobsArray\<close>).\<close>

definition extractJobs :: "jsval \<Rightarrow> jsval" where
  "extractJobs responseData =
     (if isArray responseData then responseData
      else if truthy responseData \<and> is_object responseData then
        js_or (js_or (js_or (prop_of responseData ''results'') (prop_of responseData ''jobs''))
                 (prop_of responseData ''data''))
          (Arr [])
      else Arr [])"

text \<open>The part of the \<^verbatim>\<open>try\<close> block that can throw, up to \<^verbatim>\<open>jobsArray\<close>.\<close>

definition fetchJobs_body :: "response \<Rightarrow> js_error + jsval" where
  "fetchJobs_body resp =
     (case resp of
        NetworkFailure \<Rightarrow> Inl TypeError
      | Response ok body \<Rightarrow>
          (if \<not> ok then Inl (Error ''Failed to fetch jobs'')
           else (case body of
                   None \<Rightarrow> Inl SyntaxError
                 | Some responseData \<Rightarrow> Inr (extractJobs responseData))))"

text \<open>The updater \<^verbatim>\<open>prevJobs => [...prevJobs, ...jobsArray]\<close>.\<close>

definition append_jobs :: "jsval \<Rightarrow> jsval \<Rightarrow> js_error + jsval" where
  "append_jobs prevJobs jobsArray =
     (case spread prevJobs of
        Inl e \<Rightarrow> Inl e
      | Inr ps \<Rightarrow> (case spread jobsArray of Inl e \<Rightarrow> Inl e | Inr xs \<Rightarrow> Inr (Arr (ps @ xs))))"

text \<open>
  \<^verbatim>\<open>fetchJobs(page)\<close>, from the state in which it is called to the state after its
  \<^verbatim>\<open>finally\<close>. \<open>fetchJobs_begin\<close> is the state while the request is in flight. The
  updater runs in React, outside the \<^verbatim>\<open>try\<close>: an exception in it is not caught by
  \<^verbatim>\<open>fetchJobs\<close> and is the \<open>Inl\<close> result.
\<close>

definition fetchJobs_begin :: "app_state \<Rightarrow> app_state" where
  "fetchJobs_begin st = st\<lparr>loading := True, error := None\<rparr>"

definition fetchJobs :: "int \<Rightarrow> response \<Rightarrow> app_state \<Rightarrow> js_error + app_state" where
  "fetchJobs page resp st =
     (let st1 = fetchJobs_begin st in
      case fetchJobs_body resp of
        Inl e \<Rightarrow>
          Inr (st1\<lparr>error := Some ''Failed to fetch jobs. Please try again later.'',
                   loading := False\<rparr>)
      | Inr jobsArray \<Rightarrow>
          (if page = 1 then
             Inr (st1\<lparr>jobs := jobsArray, currentPage := page, loading := False\<rparr>)
           else
             (case append_jobs (jobs st1) jobsArray of
                Inl e \<Rightarrow> Inl e
              | Inr js \<Rightarrow> Inr (st1\<lparr>jobs := js, currentPage := page, loading := False\<rparr>))))"

section \<open>saveBookmarks\<close>

text \<open>The object literal that the \<^verbatim>\<open>map\<close> callback of \<^verbatim>\<open>saveBookmarks\<close> returns.\<close>

definition essential_record :: "jsval \<Rightarrow> jsval" where
  "essential_record job =
     (let primary_details = prop_of job ''primary_details'';
          processedExperience =
            (if is_number (prop_of job ''experience'') \<and> truthy primary_details
                \<and> truthy (prop_of primary_details ''Experience'')
             then prop_of primary_details ''Experience'' else prop_of job ''experience'');
          processedJobType =
            (if is_number (prop_of job ''job_type'') \<and> truthy primary_details
                \<and> truthy (prop_of primary_details ''Job_Type'')
             then prop_of primary_details ''Job_Type'' else prop_of job ''job_type'');
          processedQualification =
            (if is_number (prop_of job ''qualification'') \<and> truthy primary_details
                \<and> truthy (prop_of primary_details ''Qualification'')
             then prop_of primary_details ''Qualification'' else prop_of job ''qualification'');
          processedSalary =
            (if truthy primary_details \<and> truthy (prop_of primary_details ''Salary'')
             then prop_of primary_details ''Salary'' else Null)
      in Obj
        [(''id'', prop_of job ''id''),
         (''title'', prop_of job ''title''),
         (''company_name'', prop_of job ''company_name''),
         (''salary'', js_or processedSalary (prop_of job ''salary'')),
         (''salary_min'', prop_of job ''salary_min''),
         (''salary_max'', prop_of job ''salary_max''),
         (''experience'', processedExperience),
         (''locality'', prop_of job ''locality''),
         (''city_location'', prop_of job ''city_location''),
         (''job_type'', processedJobType),
         (''qualification'', processedQualification),
         (''primary_details'', prop_of job ''primary_details''),
         (''contentV3'', prop_of job ''contentV3''),
         (''other_details'', prop_of job ''other_details''),
         (''whatsapp_no'', prop_of job ''whatsapp_no''),
         (''phone'', prop_of job ''phone''),
         (''job_tags'', prop_of job ''job_tags''),
         (''openings_count'', prop_of job ''openings_count''),
         (''tags'', prop_of job ''tags''),
         (''created_on'', prop_of job ''created_on''),
         (''updated_on'', prop_of job ''updated_on''),
         (''expire_on'', prop_of job ''expire_on''),
         (''views'', prop_of job ''views'')])"

text \<open>The callback on one element: \<^verbatim>\<open>job.experience\<close> throws when the element is
  \<^verbatim>\<open>null\<close> or \<^verbatim>\<open>undefined\<close>.\<close>

definition essential :: "jsval \<Rightarrow> js_error + jsval" where
  "essential job = (if nullish job then Inl TypeError else Inr (essential_record job))"

fun map_essential :: "jsval list \<Rightarrow> js_error + jsval list" where
  "map_essential [] = Inr []"
| "map_essential (job # rest) =
     (case essential job of
        Inl e \<Rightarrow> Inl e
      | Inr r \<Rightarrow> (case map_essential rest of Inl e \<Rightarrow> Inl e | Inr rs \<Rightarrow> Inr (r # rs)))"

text \<open>The bundle that is serialized; \<open>now\<close> is \<^verbatim>\<open>new Date().toISOString()\<close>.\<close>

definition bookmarksData :: "string \<Rightarrow> jsval list \<Rightarrow> jsval" where
  "bookmarksData now essentialJobData =
     Obj [(''timestamp'', Str now), (''jobs'', Arr essentialJobData)]"

definition saveBookmarks_try :: "string \<Rightarrow> jsval \<Rightarrow> storage \<Rightarrow> (js_error + unit) \<times> storage" where
  "saveBookmarks_try now updatedBookmarks sto =
     (case updatedBookmarks of
        Arr js \<Rightarrow>
          (case map_essential js of
             Inl e \<Rightarrow> (Inl e, sto)
           | Inr essentialJobData \<Rightarrow>
               (case setItem primary_key (JSON_stringify (bookmarksData now essentialJobData)) sto of
                  (Inl e, sto1) \<Rightarrow> (Inl e, sto1)
                | (Inr u, sto1) \<Rightarrow>
                    setItem backup_key (JSON_stringify (bookmarksData now essentialJobData)) sto1))
      | _ \<Rightarrow> (Inl (Error ''Invalid bookmark data format''), sto))"

definition saveBookmarks :: "string \<Rightarrow> jsval \<Rightarrow> app_state \<Rightarrow> storage \<Rightarrow> app_state \<times> storage" where
  "saveBookmarks now updatedBookmarks st sto =
     (case saveBookmarks_try now updatedBookmarks sto of
        (Inr u, sto1) \<Rightarrow> (st, sto1)
      | (Inl err, sto1) \<Rightarrow>
          (st\<lparr>error := Some ''Failed to save job'', alerts := alerts st @ [''Storage Error'']\<rparr>,
           sto1))"

section \<open>isBookmarked and toggleBookmark\<close>

text \<open>\<^verbatim>\<open>xs.some(job => job.id === jobId)\<close>: it stops at the first match, and throws at an
  element that is \<^verbatim>\<open>null\<close> or \<^verbatim>\<open>undefined\<close>.\<close>

fun some_id :: "jsval list \<Rightarrow> jsval \<Rightarrow> js_error + bool" where
  "some_id [] jobId = Inr False"
| "some_id (job # rest) jobId =
     (case get job ''id'' of
        Inl e \<Rightarrow> Inl e
      | Inr i \<Rightarrow> (if strict_eq i jobId then Inr True else some_id rest jobId))"

text \<open>\<^verbatim>\<open>bookmarks.some\<close> is a function only when \<^verbatim>\<open>bookmarks\<close> is an array.\<close>

definition isBookmarked :: "jsval \<Rightarrow> jsval \<Rightarrow> js_error + bool" where
  "isBookmarked bks jobId = (case bks of Arr xs \<Rightarrow> some_id xs jobId | _ \<Rightarrow> Inl TypeError)"

text \<open>\<^verbatim>\<open>xs.filter(bookmark => bookmark.id !== jobId)\<close>.\<close>

fun filter_other :: "jsval list \<Rightarrow> jsval \<Rightarrow> js_error + jsval list" where
  "filter_other [] jobId = Inr []"
| "filter_other (bookmark # rest) jobId =
     (case get bookmark ''id'' of
        Inl e \<Rightarrow> Inl e
      | Inr i \<Rightarrow>
          (case filter_other rest jobId of
             Inl e \<Rightarrow> Inl e
           | Inr ys \<Rightarrow> Inr (if \<not> strict_eq i jobId then bookmark # ys else ys)))"

text \<open>
  The updater that \<^verbatim>\<open>toggleBookmark(job)\<close> hands to \<^verbatim>\<open>setBookmarks\<close>. It tests membership
  in \<open>seen\<close>, the \<^verbatim>\<open>bookmarks\<close> of the render that created the closure, and computes the
  new array from \<open>prevBookmarks\<close>. It calls \<^verbatim>\<open>saveBookmarks\<close>, which is not awaited and
  catches its own errors. An exception in the updater is the \<open>Inl\<close> result.
\<close>

definition toggle_updater ::
  "string \<Rightarrow> jsval \<Rightarrow> jsval \<Rightarrow> jsval \<Rightarrow> app_state \<Rightarrow> storage \<Rightarrow> js_error + app_state \<times> storage"
  where
  "toggle_updater now seen job prevBookmarks st sto =
     (case get job ''id'' of
        Inl e \<Rightarrow> Inl e
      | Inr jobId \<Rightarrow>
          (case isBookmarked seen jobId of
             Inl e \<Rightarrow> Inl e
           | Inr True \<Rightarrow>
               (case prevBookmarks of
                  Arr ps \<Rightarrow>
                    (case filter_other ps jobId of
                       Inl e \<Rightarrow> Inl e
                     | Inr updatedBookmarks \<Rightarrow>
                         (case saveBookmarks now (Arr updatedBookmarks) st sto of
                            (st1, sto1) \<Rightarrow>
                              Inr (st1\<lparr>bookmarks := Arr updatedBookmarks\<rparr>, sto1)))
                | _ \<Rightarrow> Inl TypeError)
           | Inr False \<Rightarrow>
               (case spread prevBookmarks of
                  Inl e \<Rightarrow> Inl e
                | Inr ps \<Rightarrow>
                    (case saveBookmarks now (Arr (ps @ [job]))
                            (st\<lparr>alerts := alerts st @ [''Job Bookmarked'']\<rparr>) sto of
                       (st1, sto1) \<Rightarrow> Inr (st1\<lparr>bookmarks := Arr (ps @ [job])\<rparr>, sto1)))))"

text \<open>\<^verbatim>\<open>toggleBookmark(job)\<close> called after the last update has been rendered: the closure
  and the updater see the same array.\<close>

definition toggleBookmark ::
  "string \<Rightarrow> jsval \<Rightarrow> app_state \<Rightarrow> storage \<Rightarrow> js_error + app_state \<times> storage" where
  "toggleBookmark now job st sto = toggle_updater now (bookmarks st) job (bookmarks st) st sto"

section \<open>clearBookmarks\<close>

text \<open>\<open>confirmed\<close>: the user pressed \<^verbatim>\<open>Clear All\<close> in the prompt, not \<^verbatim>\<open>Cancel\<close>.\<close>

definition clearBookmarks :: "bool \<Rightarrow> app_state \<Rightarrow> storage \<Rightarrow> app_state \<times> storage" where
  "clearBookmarks confirmed st sto =
     (let st1 = st\<lparr>alerts := alerts st @ [''Clear All Bookmarks'']\<rparr> in
      if confirmed then
        (case removeItem primary_key sto of
           (Inr u, sto1) \<Rightarrow> (st1\<lparr>bookmarks := Arr []\<rparr>, sto1)
         | (Inl err, sto1) \<Rightarrow> (st1\<lparr>error := Some ''Failed to clear bookmarks''\<rparr>, sto1))
      else (st1, sto))"

section \<open>verifyAndRepairBookmarks\<close>

text \<open>\<^verbatim>\<open>JSON.parse(t)\<close> inside the \<^verbatim>\<open>try\<close> whose \<^verbatim>\<open>catch\<close> returns \<^verbatim>\<open>[]\<close>.\<close>

definition parse_or_empty :: "stored \<Rightarrow> jsval" where
  "parse_or_empty t = (case JSON_parse t of Inl e \<Rightarrow> Arr [] | Inr v \<Rightarrow> v)"

definition verifyAndRepairBookmarks :: "storage \<Rightarrow> jsval \<times> storage" where
  "verifyAndRepairBookmarks sto =
     (case getItem primary_key sto of
        (Inl e, sto1) \<Rightarrow> (Arr [], sto1)
      | (Inr mainBookmarks, sto1) \<Rightarrow>
          (case getItem backup_key sto1 of
             (Inl e, sto2) \<Rightarrow> (Arr [], sto2)
           | (Inr backupBookmarks, sto2) \<Rightarrow>
               (if \<not> has_data mainBookmarks \<and> has_data backupBookmarks then
                  (case backupBookmarks of
                     Some b \<Rightarrow>
                       (case setItem primary_key b sto2 of
                          (Inl e, sto3) \<Rightarrow> (Arr [], sto3)
                        | (Inr u, sto3) \<Rightarrow> (parse_or_empty b, sto3))
                   | None \<Rightarrow> (Arr [], sto2))
                else if has_data mainBookmarks then
                  (case mainBookmarks of
                     Some m \<Rightarrow> (parse_or_empty m, sto2)
                   | None \<Rightarrow> (Arr [], sto2))
                else (Arr [], sto2))))"

section \<open>Auxiliary notions and sample data\<close>

text \<open>\<open>fault_at n sto\<close>: the platform rejects the \<open>n\<close>-th storage call from now (counting
  from 0).\<close>

definition fault_at :: "nat \<Rightarrow> storage \<Rightarrow> bool" where
  "fault_at n sto = (case drop n (faults sto) of [] \<Rightarrow> False | f # fs \<Rightarrow> f)"

definition empty_storage :: storage where
  "empty_storage = \<lparr>items = Map.empty, faults = [], calls = []\<rparr>"

definition stamp :: string where
  "stamp = ''2024-01-01T00:00:00.000Z''"

definition job1 :: jsval where
  "job1 = Obj [(''id'', Num 1), (''title'', Str ''Driver'')]"

definition job2 :: jsval where
  "job2 = Obj [(''id'', Num 2), (''title'', Str ''Cook'')]"

definition corrupted_storage :: storage where
  "corrupted_storage =
     \<lparr>items = [primary_key \<mapsto> Malformed, backup_key \<mapsto> Json (bookmarksData stamp [job1])],
      faults = [], calls = []\<rparr>"

definition backup_only_storage :: storage where
  "backup_only_storage =
     \<lparr>items = [backup_key \<mapsto> Json (bookmarksData stamp [job1])], faults = [], calls = []\<rparr>"

definition saved_storage :: storage where
  "saved_storage =
     \<lparr>items = [primary_key \<mapsto> Json (bookmarksData stamp [job1]),
               backup_key \<mapsto> Json (bookmarksData stamp [job1])],
      faults = [], calls = []\<rparr>"

text \<open>The identifiers present in a bookmark array.\<close>

definition ids_of :: "jsval \<Rightarrow> jsval set" where
  "ids_of bks = (case bks of Arr xs \<Rightarrow> (\<lambda>b. prop_of b ''id'') ` set xs | _ \<Rightarrow> {})"

text \<open>The whitelist of the essential projection, in the order of the object literal.\<close>

definition essential_fields :: "string list" where
  "essential_fields =
     [''id'', ''title'', ''company_name'', ''salary'', ''salary_min'', ''salary_max'',
      ''experience'', ''locality'', ''city_location'', ''job_type'', ''qualification'',
      ''primary_details'', ''contentV3'', ''other_details'', ''whatsapp_no'', ''phone'',
      ''job_tags'', ''openings_count'', ''tags'', ''created_on'', ''updated_on'', ''expire_on'',
      ''views'']"

text \<open>What the serialized bundle holds for one job, and the text written for a set.\<close>

definition persisted_record :: "jsval \<Rightarrow> jsval" where
  "persisted_record job = json_image (essential_record job)"

definition persisted_bundle :: "string \<Rightarrow> jsval list \<Rightarrow> stored" where
  "persisted_bundle now js =
     Json (Obj [(''timestamp'', Str now), (''jobs'', Arr (map persisted_record js))])"

text \<open>The storage calls made between two storage states.\<close>

definition new_calls :: "storage \<Rightarrow> storage \<Rightarrow> call list" where
  "new_calls sto sto' = drop (length (calls sto)) (calls sto')"

text \<open>The values that a JSON text denotes: \<^verbatim>\<open>undefined\<close> occurs nowhere in them.\<close>

primrec json_value :: "jsval \<Rightarrow> bool" where
  "json_value Undefined = False"
| "json_value Null = True"
| "json_value (Bool b) = True"
| "json_value (Num n) = True"
| "json_value (Str s) = True"
| "json_value (Arr xs) = list_all id (map json_value xs)"
| "json_value (Obj kvs) = list_all snd (map (map_prod id json_value) kvs)"

text \<open>
  The resolution rules in the words of the specification, to be compared with what
  \<open>essential_record\<close> computes: a field of \<^verbatim>\<open>primary_details\<close> is used when it exists.
\<close>

definition has_field :: "jsval \<Rightarrow> string \<Rightarrow> bool" where
  "has_field v k = (case v of Obj kvs \<Rightarrow> map_of kvs k \<noteq> None | _ \<Rightarrow> False)"

definition spec_resolved :: "jsval \<Rightarrow> string \<Rightarrow> string \<Rightarrow> jsval" where
  "spec_resolved job key detail =
     (if is_number (prop_of job key) \<and> has_field (prop_of job ''primary_details'') detail
      then prop_of (prop_of job ''primary_details'') detail else prop_of job key)"

definition spec_salary :: "jsval \<Rightarrow> jsval" where
  "spec_salary job =
     (if has_field (prop_of job ''primary_details'') ''Salary''
      then prop_of (prop_of job ''primary_details'') ''Salary'' else prop_of job ''salary'')"

definition job5 :: jsval where
  "job5 = Obj [(''id'', Num 5), (''experience'', Num 3), (''salary'', Str ''15000''),
               (''primary_details'', Obj [(''Experience'', Str []), (''Salary'', Str [])])]"

definition job_extra :: jsval where
  "job_extra = Obj [(''id'', Num 7), (''title'', Str ''Clerk''), (''internal_score'', Num 42)]"

definition job_scenario :: jsval where
  "job_scenario = Obj [(''id'', Num 5), (''experience'', Num 3),
                       (''primary_details'', Obj [(''Experience'', Str ''2-4 yrs'')])]"

text \<open>The storage after saving the set \<open>[job1]\<close> and then clearing all bookmarks.\<close>

definition cleared_storage :: storage where
  "cleared_storage =
     snd (clearBookmarks True (initial_state\<lparr>bookmarks := Arr [job1]\<rparr>)
            (snd (saveBookmarks stamp (Arr [job1]) initial_state empty_storage)))"

section \<open>Storage calls\<close>

lemma next_fault_at: "next_fault sto = fault_at 0 sto"
  by (simp add: next_fault_def fault_at_def)

lemma fault_at_issue: "fault_at n (issue c sto) = fault_at (Suc n) sto"
  by (simp add: fault_at_def issue_def drop_Suc)

lemma issue_simps [simp]:
  "calls (issue c sto) = calls sto @ [c]"
  "items (issue c sto) = items sto"
  "faults (issue c sto) = tl (faults sto)"
  by (simp_all add: issue_def)

lemma fault_at_items [simp]: "fault_at n (sto\<lparr>items := m\<rparr>) = fault_at n sto"
  by (simp add: fault_at_def)

section \<open>Initial load\<close>

lemma loadBookmarks_retry:
  "n \<noteq> 0 \<Longrightarrow> loadBookmarks n st sto =
     (case loadBookmarks_try st sto of
        (Inr u, st1, sto1) \<Rightarrow> (Inr u, st1\<lparr>loading := False\<rparr>, sto1)
      | (Inl err, st1, sto1) \<Rightarrow>
          (Inr (), st1\<lparr>error := Some ''Failed to load saved jobs'', loading := False\<rparr>, sto1))"
  by (subst loadBookmarks.simps) (simp split: prod.splits sum.splits)

lemma loadBookmarks_first:
  "loadBookmarks 0 st sto =
     (case loadBookmarks_try st sto of
        (Inr u, st1, sto1) \<Rightarrow> (Inr u, st1\<lparr>loading := False\<rparr>, sto1)
      | (Inl err, st1, sto1) \<Rightarrow>
          (case removeItem primary_key sto1 of
             (Inr u, sto2) \<Rightarrow>
               (case loadBookmarks (Suc 0) st1 sto2 of
                  (r, st3, sto3) \<Rightarrow> (r, st3\<lparr>loading := False\<rparr>, sto3))
           | (Inl clearError, sto2) \<Rightarrow>
               (Inr (), st1\<lparr>error := Some ''Failed to load saved jobs'', loading := False\<rparr>,
                sto2)))"
  by (subst loadBookmarks.simps) (simp split: prod.splits sum.splits)

lemma loadBookmarks_retry_returns: "n \<noteq> 0 \<Longrightarrow> fst (loadBookmarks n st sto) = Inr ()"
  by (simp add: loadBookmarks_retry split: prod.splits sum.splits)

lemma loadBookmarks_returns: "fst (loadBookmarks n st sto) = Inr ()"
proof (cases "n = 0")
  case True
  have "fst (loadBookmarks (Suc 0) a b) = Inr ()" for a b
    by (rule loadBookmarks_retry_returns) simp
  then have inner: "loadBookmarks (Suc 0) a b = (r, c) \<Longrightarrow> r = Inr ()" for a b r c
    by (metis fst_conv)
  show ?thesis
    unfolding True loadBookmarks_first
    by (auto split: prod.splits sum.splits dest: inner)
next
  case False
  then show ?thesis by (rule loadBookmarks_retry_returns)
qed

lemma loadBookmarks_try_corrupted:
  assumes "items sto primary_key = Some Malformed" and "\<not> fault_at 0 sto"
  shows "loadBookmarks_try st sto =
           (Inl SyntaxError, st\<lparr>loading := True\<rparr>, issue (GetItem primary_key) sto)"
  using assms
  by (simp add: loadBookmarks_try_def getItem_def next_fault_at JSON_parse_def)

lemma loadBookmarks_try_rejected:
  assumes "fault_at 0 sto"
  shows "loadBookmarks_try st sto =
           (Inl StorageError, st\<lparr>loading := True\<rparr>, issue (GetItem primary_key) sto)"
  using assms
  by (simp add: loadBookmarks_try_def getItem_def next_fault_at)

lemma loadBookmarks_try_absent:
  assumes "items sto primary_key = None" and "\<not> fault_at 0 sto"
  shows "loadBookmarks_try st sto =
           (Inr (), st\<lparr>loading := True\<rparr>, issue (GetItem primary_key) sto)"
  using assms
  by (simp add: loadBookmarks_try_def getItem_def next_fault_at)

lemma persisted_job1: "json_image (essential_record job1) = job1"
  by (simp add: essential_record_def job1_def js_or_def)

lemma save_job1:
  "snd (saveBookmarks stamp (Arr [job1]) initial_state empty_storage) =
     \<lparr>items = [primary_key \<mapsto> Json (bookmarksData stamp [job1]),
               backup_key \<mapsto> Json (bookmarksData stamp [job1])],
      faults = [],
      calls = [SetItem primary_key (Json (bookmarksData stamp [job1])),
               SetItem backup_key (Json (bookmarksData stamp [job1]))]\<rparr>"
proof -
  have n: "\<not> nullish job1" by (simp add: job1_def)
  have j: "JSON_stringify (bookmarksData stamp [essential_record job1]) =
             Json (bookmarksData stamp [job1])"
    using persisted_job1 by (simp add: JSON_stringify_def bookmarksData_def job1_def)
  show ?thesis
    by (simp add: saveBookmarks_def saveBookmarks_try_def essential_def n j setItem_def
        next_fault_def empty_storage_def issue_def)
qed

text \<open>
  Claim C1. A bundle present and parseable at startup should make the in-memory bookmark
  set equal to the bundle's \<^verbatim>\<open>jobs\<close> list. The code does not do that:
  \<^verbatim>\<open>setBookmarks(JSON.parse(storedBookmarks))\<close> stores the parsed bundle itself. Here the
  storage is the one \<^verbatim>\<open>saveBookmarks\<close> leaves after saving the one-job set \<open>[job1]\<close>: after
  the load, \<^verbatim>\<open>bookmarks\<close> is the object with \<^verbatim>\<open>timestamp\<close> and \<^verbatim>\<open>jobs\<close>, which is not the
  list \<open>[job1]\<close>, and the membership query throws on it.
\<close>

theorem loadBookmarks_keeps_whole_bundle:
  "bookmarks (fst (snd (loadBookmarks 0 initial_state
      (snd (saveBookmarks stamp (Arr [job1]) initial_state empty_storage)))))
     = Obj [(''timestamp'', Str stamp), (''jobs'', Arr [job1])]
   \<and> Obj [(''timestamp'', Str stamp), (''jobs'', Arr [job1])] \<noteq> Arr [job1]
   \<and> isBookmarked (Obj [(''timestamp'', Str stamp), (''jobs'', Arr [job1])]) (Num 1)
        = Inl TypeError"
  by (simp add: save_job1 loadBookmarks_first loadBookmarks_try_def getItem_def next_fault_def
      JSON_parse_def bookmarksData_def isBookmarked_def)

text \<open>
  Claim C3. When the stored bookmark value is read and its parse fails, \<^verbatim>\<open>loadBookmarks\<close>
  makes exactly one repair attempt: one \<^verbatim>\<open>removeItem\<close> of the primary key and, when that
  call is not rejected, one more read (the retry), and nothing else. The bookmark set is
  the one before the load (the empty array at startup), the loading flag ends cleared, and
  when the repair fails (the removal or the second read is rejected) the error
  \<^verbatim>\<open>Failed to load saved jobs\<close> is set; when it succeeds the entry is gone. Whatever the
  storage holds and does, \<^verbatim>\<open>loadBookmarks\<close> returns normally.
\<close>

theorem loadBookmarks_corrupted:
  assumes corrupt: "items sto primary_key = Some Malformed"
    and read: "\<not> fault_at 0 sto"
  shows "\<exists>st' sto'. loadBookmarks 0 st sto = (Inr (), st', sto')
           \<and> bookmarks st' = bookmarks st
           \<and> (bookmarks st = Arr [] \<longrightarrow> bookmarks st' = Arr [])
           \<and> loading st' = False
           \<and> calls sto' = calls sto @
                (if fault_at 1 sto then [GetItem primary_key, RemoveItem primary_key]
                 else [GetItem primary_key, RemoveItem primary_key, GetItem primary_key])
           \<and> (if fault_at 1 sto \<or> fault_at 2 sto
               then error st' = Some ''Failed to load saved jobs''
               else error st' = error st \<and> items sto' primary_key = None)
           \<and> (\<forall>n st0 sto0. fst (loadBookmarks n st0 sto0) = Inr ())"
proof -
  let ?sto1 = "issue (GetItem primary_key) sto"
  have try1: "loadBookmarks_try st sto = (Inl SyntaxError, st\<lparr>loading := True\<rparr>, ?sto1)"
    using corrupt read by (rule loadBookmarks_try_corrupted)
  have total: "\<forall>n st0 sto0. fst (loadBookmarks n st0 sto0) = Inr ()"
    by (intro allI loadBookmarks_returns)
  show ?thesis
  proof (cases "fault_at 1 sto")
    case True
    then have "next_fault ?sto1" by (simp add: next_fault_at fault_at_issue)
    then have rm: "removeItem primary_key ?sto1 =
                     (Inl StorageError, issue (RemoveItem primary_key) ?sto1)"
      by (simp add: removeItem_def)
    show ?thesis
      using True total by (simp add: loadBookmarks_first try1 rm)
  next
    case False
    let ?sto2 = "(issue (RemoveItem primary_key) ?sto1)
                   \<lparr>items := (items ?sto1)(primary_key := None)\<rparr>"
    from False have "\<not> next_fault ?sto1" by (simp add: next_fault_at fault_at_issue)
    then have rm: "removeItem primary_key ?sto1 = (Inr (), ?sto2)"
      by (simp add: removeItem_def)
    have f2: "fault_at 0 ?sto2 = fault_at 2 sto"
      by (simp add: fault_at_issue numeral_2_eq_2)
    show ?thesis
    proof (cases "fault_at 2 sto")
      case True
      then have "loadBookmarks_try (st\<lparr>loading := True\<rparr>) ?sto2 =
                   (Inl StorageError, st\<lparr>loading := True\<rparr>, issue (GetItem primary_key) ?sto2)"
        using f2 by (simp add: loadBookmarks_try_rejected)
      then show ?thesis
        using True \<open>\<not> fault_at 1 sto\<close> total
        by (simp add: loadBookmarks_first try1 rm loadBookmarks_retry)
    next
      case no2: False
      have "items ?sto2 primary_key = None" by simp
      moreover have "\<not> fault_at 0 ?sto2" using f2 no2 by simp
      ultimately have "loadBookmarks_try (st\<lparr>loading := True\<rparr>) ?sto2 =
                   (Inr (), st\<lparr>loading := True\<rparr>, issue (GetItem primary_key) ?sto2)"
        using loadBookmarks_try_absent [of ?sto2 "st\<lparr>loading := True\<rparr>"] by simp
      then show ?thesis
        using no2 \<open>\<not> fault_at 1 sto\<close> total
        by (simp add: loadBookmarks_first try1 rm loadBookmarks_retry)
    qed
  qed
qed

theorem loadBookmarks_corrupted_witness:
  "items corrupted_storage primary_key = Some Malformed \<and> \<not> fault_at 0 corrupted_storage
   \<and> (\<exists>st' sto'. loadBookmarks 0 initial_state corrupted_storage = (Inr (), st', sto')
         \<and> bookmarks st' = Arr [] \<and> loading st' = False \<and> error st' = None
         \<and> calls sto' = [GetItem primary_key, RemoveItem primary_key, GetItem primary_key]
         \<and> items sto' primary_key = None)"
proof -
  have a: "items corrupted_storage primary_key = Some Malformed"
    by (simp add: corrupted_storage_def)
  have b: "\<not> fault_at 0 corrupted_storage"
    by (simp add: corrupted_storage_def fault_at_def)
  have c: "\<not> fault_at 1 corrupted_storage" "\<not> fault_at 2 corrupted_storage"
    by (simp_all add: corrupted_storage_def fault_at_def)
  have d: "calls corrupted_storage = []" "bookmarks initial_state = Arr []"
    "error initial_state = None"
    by (simp_all add: corrupted_storage_def initial_state_def)
  show ?thesis
    using loadBookmarks_corrupted [OF a b, of initial_state] a b c d by auto
qed

section \<open>Fetching a page\<close>

text \<open>
  Claim C2. On a successful \<^verbatim>\<open>fetchJobs(page)\<close> (the response is ok and its body parses),
  the array \<open>xs\<close> that the fallback chain \<open>extractJobs\<close> takes from the body replaces the
  listing when \<open>page = 1\<close> and is appended to the previous sequence \<open>prev\<close> otherwise
  (every page other than 1, so every page above 1), the length growing by the length of
  \<open>xs\<close>; the page counter becomes \<open>page\<close>. On every failing response the call leaves the
  page counter as it was. The chain: an array body is taken as it is; of an object body
  the first of \<^verbatim>\<open>results\<close>, \<^verbatim>\<open>jobs\<close>, \<^verbatim>\<open>data\<close> that is truthy, and the empty array when none
  is; the empty array for any other body.
\<close>

theorem fetchJobs_replaces_or_appends:
  assumes "extractJobs responseData = Arr xs" and "jobs st = Arr prev"
  shows "\<exists>st'. fetchJobs page (Response True (Some responseData)) st = Inr st'
           \<and> jobs st' = (if page = 1 then Arr xs else Arr (prev @ xs))
           \<and> (page \<noteq> 1 \<longrightarrow> length (prev @ xs) = length prev + length xs)
           \<and> currentPage st' = page
           \<and> (\<forall>resp e. fetchJobs_body resp = Inl e \<longrightarrow>
                 (\<exists>st''. fetchJobs page resp st = Inr st'' \<and> currentPage st'' = currentPage st))
           \<and> (\<forall>ys. extractJobs (Arr ys) = Arr ys)
           \<and> (\<forall>kvs. extractJobs (Obj kvs) =
                 (if truthy (prop_of (Obj kvs) ''results'') then prop_of (Obj kvs) ''results''
                  else if truthy (prop_of (Obj kvs) ''jobs'') then prop_of (Obj kvs) ''jobs''
                  else if truthy (prop_of (Obj kvs) ''data'') then prop_of (Obj kvs) ''data''
                  else Arr []))
           \<and> (\<forall>v. (\<forall>ys. v \<noteq> Arr ys) \<and> (\<forall>kvs. v \<noteq> Obj kvs) \<longrightarrow> extractJobs v = Arr [])"
proof -
  have chain: "extractJobs (Obj kvs) =
                 (if truthy (prop_of (Obj kvs) ''results'') then prop_of (Obj kvs) ''results''
                  else if truthy (prop_of (Obj kvs) ''jobs'') then prop_of (Obj kvs) ''jobs''
                  else if truthy (prop_of (Obj kvs) ''data'') then prop_of (Obj kvs) ''data''
                  else Arr [])" for kvs
    by (simp add: extractJobs_def js_or_def)
  have other: "extractJobs v = Arr []" if "\<forall>ys. v \<noteq> Arr ys" "\<forall>kvs. v \<noteq> Obj kvs" for v
    using that by (cases v) (simp_all add: extractJobs_def)
  have arr: "extractJobs (Arr ys) = Arr ys" for ys
    by (simp add: extractJobs_def)
  have main: "\<exists>st'. fetchJobs page (Response True (Some responseData)) st = Inr st'
           \<and> jobs st' = (if page = 1 then Arr xs else Arr (prev @ xs))
           \<and> (page \<noteq> 1 \<longrightarrow> length (prev @ xs) = length prev + length xs)
           \<and> currentPage st' = page
           \<and> (\<forall>resp e. fetchJobs_body resp = Inl e \<longrightarrow>
                 (\<exists>st''. fetchJobs page resp st = Inr st'' \<and> currentPage st'' = currentPage st))"
    using assms
    by (simp add: fetchJobs_def fetchJobs_body_def fetchJobs_begin_def append_jobs_def Let_def)
  from main obtain st' where m:
    "fetchJobs page (Response True (Some responseData)) st = Inr st'"
    "jobs st' = (if page = 1 then Arr xs else Arr (prev @ xs))"
    "currentPage st' = page"
    "\<forall>resp e. fetchJobs_body resp = Inl e \<longrightarrow>
       (\<exists>st''. fetchJobs page resp st = Inr st'' \<and> currentPage st'' = currentPage st)"
    by blast
  show ?thesis
    by (rule exI [of _ st']) (simp add: m arr chain other)
qed

theorem fetchJobs_replaces_or_appends_witness:
  "extractJobs (Obj [(''results'', Arr [job1])]) = Arr [job1]
   \<and> extractJobs (Obj [(''data'', Arr [job2])]) = Arr [job2]
   \<and> jobs (initial_state\<lparr>jobs := Arr [job1]\<rparr>) = Arr [job1]
   \<and> (\<exists>st'. fetchJobs 1 (Response True (Some (Obj [(''results'', Arr [job1])])))
                 (initial_state\<lparr>jobs := Arr [job1]\<rparr>) = Inr st'
          \<and> jobs st' = Arr [job1] \<and> currentPage st' = 1)
   \<and> (\<exists>st'. fetchJobs 2 (Response True (Some (Obj [(''data'', Arr [job2])])))
                 (initial_state\<lparr>jobs := Arr [job1]\<rparr>) = Inr st'
          \<and> jobs st' = Arr [job1, job2] \<and> currentPage st' = 2)"
proof -
  have a: "extractJobs (Obj [(''data'', Arr [job2])]) = Arr [job2]"
    by (simp add: extractJobs_def js_or_def)
  have a1: "extractJobs (Obj [(''results'', Arr [job1])]) = Arr [job1]"
    by (simp add: extractJobs_def js_or_def)
  have b: "jobs (initial_state\<lparr>jobs := Arr [job1]\<rparr>) = Arr [job1]"
    by simp
  have "\<exists>st'. fetchJobs 2 (Response True (Some (Obj [(''data'', Arr [job2])])))
                 (initial_state\<lparr>jobs := Arr [job1]\<rparr>) = Inr st'
          \<and> jobs st' = Arr [job1, job2] \<and> currentPage st' = 2"
    using fetchJobs_replaces_or_appends [OF a b, of 2] by auto
  moreover have "\<exists>st'. fetchJobs 1 (Response True (Some (Obj [(''results'', Arr [job1])])))
                 (initial_state\<lparr>jobs := Arr [job1]\<rparr>) = Inr st'
          \<and> jobs st' = Arr [job1] \<and> currentPage st' = 1"
    using fetchJobs_replaces_or_appends [OF a1 b, of 1] by auto
  ultimately show ?thesis using a a1 b by blast
qed

text \<open>
  Claim C6. Every \<^verbatim>\<open>fetchJobs\<close> call clears the error slot before the request. When the
  call fails (the request fails, the status is not a success, or the body does not
  parse), the user-facing message is set, the listing is the one before the call and the
  loading flag is cleared. When the call succeeds, the error slot is empty and the loading
  flag is cleared, whatever the slot held before.
\<close>

theorem fetchJobs_failure_and_error_slot:
  "error (fetchJobs_begin st) = None
   \<and> (\<forall>resp. resp = NetworkFailure \<or> (\<exists>body. resp = Response False body)
          \<or> resp = Response True None \<longrightarrow>
        (\<exists>st'. fetchJobs page resp st = Inr st'
           \<and> error st' = Some ''Failed to fetch jobs. Please try again later.''
           \<and> jobs st' = jobs st \<and> loading st' = False))
   \<and> (\<forall>responseData st'. fetchJobs page (Response True (Some responseData)) st = Inr st' \<longrightarrow>
          error st' = None \<and> loading st' = False)"
  by (auto simp add: fetchJobs_def fetchJobs_body_def fetchJobs_begin_def Let_def
      split: sum.splits if_splits)

theorem fetchJobs_failure_and_error_slot_witness:
  "(\<exists>st'. fetchJobs 2 (Response False None)
             (initial_state\<lparr>jobs := Arr [job1], error := Some ''Failed to save job''\<rparr>) = Inr st'
      \<and> error st' = Some ''Failed to fetch jobs. Please try again later.''
      \<and> jobs st' = Arr [job1] \<and> loading st' = False)
   \<and> (\<exists>st'. fetchJobs 1 (Response True (Some (Arr [job2])))
             (initial_state\<lparr>jobs := Arr [job1], error := Some ''Failed to save job''\<rparr>) = Inr st'
      \<and> error st' = None \<and> loading st' = False)"
proof -
  let ?st = "initial_state\<lparr>jobs := Arr [job1], error := Some ''Failed to save job''\<rparr>"
  have ok: "fetchJobs 1 (Response True (Some (Arr [job2]))) ?st =
          Inr (?st\<lparr>loading := True, error := None, jobs := Arr [job2], currentPage := 1,
                   loading := False\<rparr>)"
    by (simp add: fetchJobs_def fetchJobs_body_def fetchJobs_begin_def extractJobs_def)
  show ?thesis
    using fetchJobs_failure_and_error_slot [of ?st 2] fetchJobs_failure_and_error_slot [of ?st 1] ok
    by auto
qed

section \<open>Persisting the bookmark set\<close>

lemma map_essential_records:
  "map_essential js = Inr rs \<Longrightarrow> rs = map essential_record js"
  by (induction js arbitrary: rs) (auto simp add: essential_def split: if_splits sum.splits)

lemma map_essential_nonnull:
  "\<forall>j\<in>set js. \<not> nullish j \<Longrightarrow> map_essential js = Inr (map essential_record js)"
  by (induction js) (auto simp add: essential_def)

lemma essential_record_keys:
  "\<exists>kvs. essential_record job = Obj kvs \<and> map fst kvs = essential_fields"
  by (simp add: essential_record_def Let_def essential_fields_def)

lemma persisted_record_keys:
  "\<exists>kvs. persisted_record job = Obj kvs \<and> fst ` set kvs \<subseteq> set essential_fields"
proof -
  obtain kvs where k: "essential_record job = Obj kvs" and f: "map fst kvs = essential_fields"
    using essential_record_keys by blast
  have "fst ` set (filter (\<lambda>kv. snd kv \<noteq> Undefined) (map (map_prod id json_image) kvs))
          \<subseteq> fst ` set kvs"
    by force
  moreover have "fst ` set kvs = set essential_fields"
    using f by (metis set_map)
  ultimately show ?thesis
    by (simp add: persisted_record_def k)
qed

lemma stringify_bundle:
  "JSON_stringify (bookmarksData now (map essential_record js)) = persisted_bundle now js"
proof -
  have "(if json_image (essential_record j) = Undefined then Null
         else json_image (essential_record j)) = persisted_record j" for j
    using persisted_record_keys [of j] by (auto simp add: persisted_record_def)
  then show ?thesis
    by (simp add: JSON_stringify_def bookmarksData_def persisted_bundle_def comp_def)
qed

lemma saveBookmarks_try_writes:
  "\<exists>ws. calls (snd (saveBookmarks_try now updatedBookmarks sto)) = calls sto @ ws
     \<and> (\<forall>c\<in>set ws. \<forall>k t. c = SetItem k t \<longrightarrow> (\<exists>js. t = persisted_bundle now js))
     \<and> (\<forall>js. updatedBookmarks = Arr js \<and> (\<forall>j\<in>set js. \<not> nullish j) \<longrightarrow>
           (\<exists>rest. ws = SetItem primary_key (persisted_bundle now js) # rest))"
proof (cases updatedBookmarks)
  case (Arr js)
  show ?thesis
  proof (cases "map_essential js")
    case (Inl e)
    have "\<not> (\<forall>j\<in>set js. \<not> nullish j)"
      using Inl map_essential_nonnull [of js] by auto
    then show ?thesis
      using Arr Inl by (simp add: saveBookmarks_try_def)
  next
    case (Inr rs)
    then have rs: "rs = map essential_record js" by (rule map_essential_records)
    show ?thesis
      using Arr Inr
      by (auto simp add: saveBookmarks_try_def rs stringify_bundle setItem_def
          split: prod.splits sum.splits if_splits)
  qed
qed (simp_all add: saveBookmarks_try_def)

lemma saveBookmarks_storage:
  "snd (saveBookmarks now updatedBookmarks st sto) = snd (saveBookmarks_try now updatedBookmarks sto)"
  by (simp add: saveBookmarks_def split: prod.splits sum.splits)

text \<open>
  Claim C4. Whatever is passed to \<^verbatim>\<open>saveBookmarks\<close>, every text it writes (to either key)
  is a bundle of a timestamp and a \<^verbatim>\<open>jobs\<close> array, and every record of that array is an
  object whose fields all belong to the whitelist \<open>essential_fields\<close>: a field of the
  input record outside the whitelist is never persisted.
\<close>

theorem saveBookmarks_whitelist:
  assumes "saveBookmarks now updatedBookmarks st sto = (st', sto')"
    and "SetItem k t \<in> set (new_calls sto sto')"
  shows "\<exists>rs. t = Json (Obj [(''timestamp'', Str now), (''jobs'', Arr rs)])
           \<and> (\<forall>r\<in>set rs. \<exists>kvs. r = Obj kvs \<and> fst ` set kvs \<subseteq> set essential_fields)"
proof -
  from assms(1) have sto': "sto' = snd (saveBookmarks_try now updatedBookmarks sto)"
    using saveBookmarks_storage [of now updatedBookmarks st sto] by simp
  from saveBookmarks_try_writes [of now updatedBookmarks sto] obtain ws where
    ws: "calls sto' = calls sto @ ws"
    and w: "\<forall>c\<in>set ws. \<forall>k t. c = SetItem k t \<longrightarrow> (\<exists>js. t = persisted_bundle now js)"
    unfolding sto' by blast
  from ws assms(2) have "SetItem k t \<in> set ws"
    by (simp add: new_calls_def)
  with w obtain js where "t = persisted_bundle now js" by blast
  then have "t = Json (Obj [(''timestamp'', Str now), (''jobs'', Arr (map persisted_record js))])"
    by (simp add: persisted_bundle_def)
  moreover have "\<forall>r\<in>set (map persisted_record js).
                   \<exists>kvs. r = Obj kvs \<and> fst ` set kvs \<subseteq> set essential_fields"
    using persisted_record_keys by auto
  ultimately show ?thesis by blast
qed

lemma persisted_job_extra:
  "persisted_record job_extra = Obj [(''id'', Num 7), (''title'', Str ''Clerk'')]"
  by (simp add: persisted_record_def essential_record_def job_extra_def js_or_def)

lemma save_job_extra:
  "saveBookmarks stamp (Arr [job_extra]) initial_state empty_storage =
     (initial_state,
      \<lparr>items = [primary_key \<mapsto> persisted_bundle stamp [job_extra],
                backup_key \<mapsto> persisted_bundle stamp [job_extra]],
       faults = [],
       calls = [SetItem primary_key (persisted_bundle stamp [job_extra]),
                SetItem backup_key (persisted_bundle stamp [job_extra])]\<rparr>)"
proof -
  have n: "map_essential [job_extra] = Inr (map essential_record [job_extra])"
    by (rule map_essential_nonnull) (simp add: job_extra_def)
  show ?thesis
    using n stringify_bundle [of stamp "[job_extra]"]
    by (simp add: saveBookmarks_def saveBookmarks_try_def setItem_def
        next_fault_def empty_storage_def issue_def)
qed

theorem saveBookmarks_whitelist_witness:
  "\<exists>st' sto'. saveBookmarks stamp (Arr [job_extra]) initial_state empty_storage = (st', sto')
     \<and> SetItem primary_key
          (Json (Obj [(''timestamp'', Str stamp),
                      (''jobs'', Arr [Obj [(''id'', Num 7), (''title'', Str ''Clerk'')]])]))
          \<in> set (new_calls empty_storage sto')
     \<and> ''internal_score'' \<notin> set essential_fields
     \<and> (\<exists>rs. Json (Obj [(''timestamp'', Str stamp),
                      (''jobs'', Arr [Obj [(''id'', Num 7), (''title'', Str ''Clerk'')]])])
               = Json (Obj [(''timestamp'', Str stamp), (''jobs'', Arr rs)])
           \<and> (\<forall>r\<in>set rs. \<exists>kvs. r = Obj kvs \<and> fst ` set kvs \<subseteq> set essential_fields))"
proof -
  let ?t = "Json (Obj [(''timestamp'', Str stamp),
                      (''jobs'', Arr [Obj [(''id'', Num 7), (''title'', Str ''Clerk'')]])])"
  let ?sto = "\<lparr>items = [primary_key \<mapsto> persisted_bundle stamp [job_extra],
                backup_key \<mapsto> persisted_bundle stamp [job_extra]],
       faults = [],
       calls = [SetItem primary_key (persisted_bundle stamp [job_extra]),
                SetItem backup_key (persisted_bundle stamp [job_extra])]\<rparr>"
  have t: "persisted_bundle stamp [job_extra] = ?t"
    by (simp add: persisted_bundle_def persisted_job_extra)
  have m: "SetItem primary_key ?t \<in> set (new_calls empty_storage ?sto)"
    by (simp add: new_calls_def empty_storage_def t)
  have e: "''internal_score'' \<notin> set essential_fields"
    by (simp add: essential_fields_def)
  show ?thesis
    using saveBookmarks_whitelist [OF save_job_extra m] save_job_extra m e by blast
qed

lemma json_image_undefined: "json_image v = Undefined \<longleftrightarrow> v = Undefined"
  by (cases v) simp_all

lemma map_of_json_image:
  "distinct (map fst kvs) \<Longrightarrow>
   map_of (filter (\<lambda>kv. snd kv \<noteq> Undefined) (map (map_prod id json_image) kvs)) k =
     (case map_of kvs k of
        None \<Rightarrow> None
      | Some v \<Rightarrow> if v = Undefined then None else Some (json_image v))"
proof (induction kvs)
  case Nil
  then show ?case by simp
next
  case (Cons kv kvs)
  obtain a v where kv: "kv = (a, v)" by (cases kv)
  from Cons.prems have d: "distinct (map fst kvs)" and a: "a \<notin> fst ` set kvs"
    by (simp_all add: kv)
  from a have none: "map_of kvs a = None"
    by (simp add: map_of_eq_None_iff)
  show ?case
    using Cons.IH [OF d] none
    by (auto simp add: kv json_image_undefined split: option.splits)
qed

lemma prop_of_json_image:
  "distinct (map fst kvs) \<Longrightarrow>
     prop_of (json_image (Obj kvs)) k = json_image (prop_of (Obj kvs) k)"
  by (simp add: map_of_json_image split: option.splits)

lemma distinct_essential_fields: "distinct essential_fields"
  by (simp add: essential_fields_def)

lemma prop_of_persisted:
  "prop_of (persisted_record job) k = json_image (prop_of (essential_record job) k)"
proof -
  obtain kvs where k: "essential_record job = Obj kvs" and f: "map fst kvs = essential_fields"
    using essential_record_keys by blast
  from f have "distinct (map fst kvs)" by (simp add: distinct_essential_fields)
  then show ?thesis
    unfolding persisted_record_def k by (rule prop_of_json_image)
qed

lemma essential_record_experience:
  "prop_of (essential_record job) ''experience'' =
     (if is_number (prop_of job ''experience'') \<and> truthy (prop_of job ''primary_details'')
         \<and> truthy (prop_of (prop_of job ''primary_details'') ''Experience'')
      then prop_of (prop_of job ''primary_details'') ''Experience''
      else prop_of job ''experience'')"
  by (simp add: essential_record_def Let_def)

lemma essential_record_job_type:
  "prop_of (essential_record job) ''job_type'' =
     (if is_number (prop_of job ''job_type'') \<and> truthy (prop_of job ''primary_details'')
         \<and> truthy (prop_of (prop_of job ''primary_details'') ''Job_Type'')
      then prop_of (prop_of job ''primary_details'') ''Job_Type''
      else prop_of job ''job_type'')"
  by (simp add: essential_record_def Let_def)

lemma essential_record_qualification:
  "prop_of (essential_record job) ''qualification'' =
     (if is_number (prop_of job ''qualification'') \<and> truthy (prop_of job ''primary_details'')
         \<and> truthy (prop_of (prop_of job ''primary_details'') ''Qualification'')
      then prop_of (prop_of job ''primary_details'') ''Qualification''
      else prop_of job ''qualification'')"
  by (simp add: essential_record_def Let_def)

lemma essential_record_salary:
  "prop_of (essential_record job) ''salary'' =
     (if truthy (prop_of job ''primary_details'')
         \<and> truthy (prop_of (prop_of job ''primary_details'') ''Salary'')
      then prop_of (prop_of job ''primary_details'') ''Salary''
      else prop_of job ''salary'')"
  by (simp add: essential_record_def Let_def js_or_def)

lemma saveBookmarks_first_write:
  assumes "\<forall>j\<in>set js. \<not> nullish j"
  shows "\<exists>rest. new_calls sto (snd (saveBookmarks now (Arr js) st sto)) =
           SetItem primary_key (persisted_bundle now js) # rest"
proof -
  have m: "map_essential js = Inr (map essential_record js)"
    using assms by (rule map_essential_nonnull)
  show ?thesis
    by (cases "next_fault sto")
      (simp_all add: saveBookmarks_storage saveBookmarks_try_def m stringify_bundle
        setItem_def new_calls_def)
qed

lemma json_image_json_value: "json_value v \<Longrightarrow> json_image v = v"
proof (induction v)
  case (Arr xs)
  then have "\<forall>x\<in>set xs. json_image x = x \<and> x \<noteq> Undefined"
    by (auto simp add: list_all_iff)
  then have "map (\<lambda>x. if x = Undefined then Null else x) (map json_image xs) = xs"
    by (induction xs) auto
  then show ?case by simp
next
  case (Obj kvs)
  then have "\<forall>kv\<in>set kvs. json_image (snd kv) = snd kv \<and> snd kv \<noteq> Undefined"
    by (fastforce simp add: list_all_iff snds.simps)
  then have "filter (\<lambda>kv. snd kv \<noteq> Undefined) (map (map_prod id json_image) kvs) = kvs"
    by (induction kvs) auto
  then show ?case by simp
qed simp_all

lemma json_image_fixed: "json_value v \<or> v = Undefined \<Longrightarrow> json_image v = v"
  using json_image_json_value by auto

lemma json_value_prop_of:
  assumes "json_value v \<or> v = Undefined"
  shows "json_value (prop_of v k) \<or> prop_of v k = Undefined"
proof (cases v)
  case (Obj kvs)
  show ?thesis
  proof (cases "map_of kvs k")
    case None
    then show ?thesis using Obj by simp
  next
    case (Some x)
    then have "(k, x) \<in> set kvs" by (rule map_of_SomeD)
    moreover from assms Obj have "\<forall>kv\<in>set kvs. json_value (snd kv)"
      by (simp add: list_all_iff)
    ultimately have "json_value x" by force
    then show ?thesis using Obj Some by simp
  qed
qed simp_all

lemma json_image_prop_of:
  "json_value v \<or> v = Undefined \<Longrightarrow> json_image (prop_of v k) = prop_of v k"
  by (rule json_image_fixed) (rule json_value_prop_of)

text \<open>
  Claim C5, as stated, fails: the code does not ask whether the \<^verbatim>\<open>primary_details\<close> field
  exists but whether its value is truthy. For \<open>job5\<close>, whose \<^verbatim>\<open>experience\<close> is the number 3
  and whose \<^verbatim>\<open>primary_details\<close> has \<^verbatim>\<open>Experience\<close> and \<^verbatim>\<open>Salary\<close> equal to the empty string,
  the stated rule gives the empty string for both, and the code persists the top-level
  values 3 and \<^verbatim>\<open>15000\<close>.
\<close>

theorem saveBookmarks_resolution_counterexample:
  "json_value job5
   \<and> is_number (prop_of job5 ''experience'')
   \<and> has_field (prop_of job5 ''primary_details'') ''Experience''
   \<and> spec_resolved job5 ''experience'' ''Experience'' = Str []
   \<and> prop_of (persisted_record job5) ''experience'' = Num 3
   \<and> has_field (prop_of job5 ''primary_details'') ''Salary''
   \<and> spec_salary job5 = Str []
   \<and> prop_of (persisted_record job5) ''salary'' = Str ''15000''"
  by (simp add: prop_of_persisted essential_record_experience essential_record_salary
      spec_resolved_def spec_salary_def has_field_def job5_def)

text \<open>
  Claim C5, amended. \<^verbatim>\<open>saveBookmarks\<close> writes, for a set of records none of which is
  \<^verbatim>\<open>null\<close> or \<^verbatim>\<open>undefined\<close>, the bundle of their persisted records. In the persisted record
  of a job (a JSON value), \<^verbatim>\<open>experience\<close>, \<^verbatim>\<open>job_type\<close> and \<^verbatim>\<open>qualification\<close> are each the
  capitalized \<^verbatim>\<open>primary_details\<close> value when the top-level value is a number and
  \<^verbatim>\<open>primary_details\<close> and that value are truthy, and the top-level value otherwise;
  \<^verbatim>\<open>salary\<close> is \<^verbatim>\<open>primary_details.Salary\<close> when \<^verbatim>\<open>primary_details\<close> and that value are
  truthy, and the top-level \<^verbatim>\<open>salary\<close> otherwise.
\<close>

theorem saveBookmarks_resolution:
  assumes "json_value job"
  shows
  "((\<forall>j\<in>set js. \<not> nullish j) \<longrightarrow>
      (\<exists>rest. new_calls sto (snd (saveBookmarks now (Arr js) st sto)) =
         SetItem primary_key
           (Json (Obj [(''timestamp'', Str now), (''jobs'', Arr (map persisted_record js))]))
         # rest))
   \<and> prop_of (persisted_record job) ''experience'' =
         (if is_number (prop_of job ''experience'') \<and> truthy (prop_of job ''primary_details'')
             \<and> truthy (prop_of (prop_of job ''primary_details'') ''Experience'')
          then prop_of (prop_of job ''primary_details'') ''Experience''
          else prop_of job ''experience'')
   \<and> prop_of (persisted_record job) ''job_type'' =
         (if is_number (prop_of job ''job_type'') \<and> truthy (prop_of job ''primary_details'')
             \<and> truthy (prop_of (prop_of job ''primary_details'') ''Job_Type'')
          then prop_of (prop_of job ''primary_details'') ''Job_Type''
          else prop_of job ''job_type'')
   \<and> prop_of (persisted_record job) ''qualification'' =
         (if is_number (prop_of job ''qualification'') \<and> truthy (prop_of job ''primary_details'')
             \<and> truthy (prop_of (prop_of job ''primary_details'') ''Qualification'')
          then prop_of (prop_of job ''primary_details'') ''Qualification''
          else prop_of job ''qualification'')
   \<and> prop_of (persisted_record job) ''salary'' =
         (if truthy (prop_of job ''primary_details'')
             \<and> truthy (prop_of (prop_of job ''primary_details'') ''Salary'')
          then prop_of (prop_of job ''primary_details'') ''Salary''
          else prop_of job ''salary'')"
proof -
  have top: "json_image (prop_of job k) = prop_of job k" for k
    using assms by (simp add: json_image_prop_of)
  have "json_value (prop_of job ''primary_details'') \<or> prop_of job ''primary_details'' = Undefined"
    using assms by (simp add: json_value_prop_of)
  then have detail: "json_image (prop_of (prop_of job ''primary_details'') k) =
                       prop_of (prop_of job ''primary_details'') k" for k
    by (rule json_image_prop_of)
  have wr: "(\<forall>j\<in>set js. \<not> nullish j) \<longrightarrow>
      (\<exists>rest. new_calls sto (snd (saveBookmarks now (Arr js) st sto)) =
         SetItem primary_key
           (Json (Obj [(''timestamp'', Str now), (''jobs'', Arr (map persisted_record js))]))
         # rest)"
    using saveBookmarks_first_write [of js sto now st] by (simp add: persisted_bundle_def)
  have e: "prop_of (persisted_record job) ''experience'' =
         (if is_number (prop_of job ''experience'') \<and> truthy (prop_of job ''primary_details'')
             \<and> truthy (prop_of (prop_of job ''primary_details'') ''Experience'')
          then prop_of (prop_of job ''primary_details'') ''Experience''
          else prop_of job ''experience'')"
    by (simp add: prop_of_persisted essential_record_experience top detail)
  have t: "prop_of (persisted_record job) ''job_type'' =
         (if is_number (prop_of job ''job_type'') \<and> truthy (prop_of job ''primary_details'')
             \<and> truthy (prop_of (prop_of job ''primary_details'') ''Job_Type'')
          then prop_of (prop_of job ''primary_details'') ''Job_Type''
          else prop_of job ''job_type'')"
    by (simp add: prop_of_persisted essential_record_job_type top detail)
  have q: "prop_of (persisted_record job) ''qualification'' =
         (if is_number (prop_of job ''qualification'') \<and> truthy (prop_of job ''primary_details'')
             \<and> truthy (prop_of (prop_of job ''primary_details'') ''Qualification'')
          then prop_of (prop_of job ''primary_details'') ''Qualification''
          else prop_of job ''qualification'')"
    by (simp add: prop_of_persisted essential_record_qualification top detail)
  have s: "prop_of (persisted_record job) ''salary'' =
         (if truthy (prop_of job ''primary_details'')
             \<and> truthy (prop_of (prop_of job ''primary_details'') ''Salary'')
          then prop_of (prop_of job ''primary_details'') ''Salary''
          else prop_of job ''salary'')"
    by (simp add: prop_of_persisted essential_record_salary top detail)
  from wr e t q s show ?thesis by (intro conjI)
qed

theorem saveBookmarks_resolution_witness:
  "json_value job_scenario \<and> \<not> nullish job_scenario
   \<and> (\<exists>rest. new_calls empty_storage
                (snd (saveBookmarks stamp (Arr [job_scenario]) initial_state empty_storage)) =
         SetItem primary_key
           (Json (Obj [(''timestamp'', Str stamp),
                       (''jobs'', Arr (map persisted_record [job_scenario]))])) # rest)
   \<and> prop_of (persisted_record job_scenario) ''experience'' = Str ''2-4 yrs''"
proof -
  have j: "json_value job_scenario" by (simp add: job_scenario_def)
  have n: "\<not> nullish job_scenario" by (simp add: job_scenario_def)
  then have a: "\<forall>j\<in>set [job_scenario]. \<not> nullish j" by simp
  have v: "is_number (prop_of job_scenario ''experience'')"
    "truthy (prop_of job_scenario ''primary_details'')"
    "prop_of (prop_of job_scenario ''primary_details'') ''Experience'' = Str ''2-4 yrs''"
    by (simp_all add: job_scenario_def)
  show ?thesis
    using saveBookmarks_resolution [OF j, of "[job_scenario]" empty_storage stamp initial_state]
      j n a v
    by simp
qed

section \<open>Membership and toggling\<close>

lemma strict_eq_primitive: "primitive q \<Longrightarrow> strict_eq i q = (i = q)"
  by (cases i; cases q) simp_all

lemma get_id: "get b ''id'' = (if nullish b then Inl TypeError else Inr (prop_of b ''id''))"
  by (simp add: get_def)

lemma some_id_all:
  "\<forall>b\<in>set xs. \<not> nullish b \<Longrightarrow> primitive q \<Longrightarrow>
     some_id xs q = Inr (\<exists>b\<in>set xs. prop_of b ''id'' = q)"
  by (induction xs) (auto simp add: get_id strict_eq_primitive)

lemma filter_other_all:
  "\<forall>b\<in>set xs. \<not> nullish b \<Longrightarrow> primitive q \<Longrightarrow>
     filter_other xs q = Inr (filter (\<lambda>b. prop_of b ''id'' \<noteq> q) xs)"
  by (induction xs) (auto simp add: get_id strict_eq_primitive)

lemma some_id_False_nonnull: "some_id xs q = Inr False \<Longrightarrow> \<forall>b\<in>set xs. \<not> nullish b"
  by (induction xs) (auto simp add: get_id split: if_splits)

lemma filter_other_nonnull: "filter_other xs q = Inr ys \<Longrightarrow> \<forall>b\<in>set xs. \<not> nullish b"
  by (induction xs arbitrary: ys) (auto simp add: get_id split: if_splits sum.splits)

lemma toggleBookmark_shape:
  assumes "toggleBookmark now job st sto = Inr (st1, sto1)"
  shows "\<exists>xs. bookmarks st = Arr xs \<and> \<not> nullish job \<and> (\<forall>b\<in>set xs. \<not> nullish b)"
proof -
  from assms have nn: "\<not> nullish job"
    by (auto simp add: toggleBookmark_def toggle_updater_def get_id split: if_splits)
  from assms obtain m where m: "isBookmarked (bookmarks st) (prop_of job ''id'') = Inr m"
    by (auto simp add: toggleBookmark_def toggle_updater_def get_id split: if_splits sum.splits)
  then obtain xs where xs: "bookmarks st = Arr xs"
    by (cases "bookmarks st") (simp_all add: isBookmarked_def)
  have "\<forall>b\<in>set xs. \<not> nullish b"
  proof (cases m)
    case True
    with assms nn m xs obtain ys where "filter_other xs (prop_of job ''id'') = Inr ys"
      by (auto simp add: toggleBookmark_def toggle_updater_def get_id split: sum.splits)
    then show ?thesis by (rule filter_other_nonnull)
  next
    case False
    with m xs have "some_id xs (prop_of job ''id'') = Inr False"
      by (simp add: isBookmarked_def)
    then show ?thesis by (rule some_id_False_nonnull)
  qed
  with xs nn show ?thesis by blast
qed

lemma toggleBookmark_result:
  assumes "bookmarks st = Arr xs" and "\<not> nullish job" and "\<forall>b\<in>set xs. \<not> nullish b"
    and "primitive (prop_of job ''id'')"
  shows "\<exists>st' sto'. toggleBookmark now job st sto = Inr (st', sto')
           \<and> bookmarks st' =
               (if \<exists>b\<in>set xs. prop_of b ''id'' = prop_of job ''id''
                then Arr (filter (\<lambda>b. prop_of b ''id'' \<noteq> prop_of job ''id'') xs)
                else Arr (xs @ [job]))"
  using assms
  by (auto simp add: toggleBookmark_def toggle_updater_def get_id isBookmarked_def
      some_id_all filter_other_all split: prod.splits)

text \<open>
  When the provider has rendered between two toggles of the same job, so that the second
  call's closure sees the array the first one produced, the second toggle runs and the
  set of identifiers present after it is the set present before the first.
\<close>

lemma toggleBookmark_twice_rendered:
  assumes first: "toggleBookmark now job st sto = Inr (st1, sto1)"
    and prim: "primitive (prop_of job ''id'')"
    and copy: "\<not> nullish job'" "prop_of job' ''id'' = prop_of job ''id''"
  shows "\<exists>st2 sto2. toggleBookmark now' job' st1 sto1 = Inr (st2, sto2)
           \<and> ids_of (bookmarks st2) = ids_of (bookmarks st)"
proof -
  let ?i = "prop_of job ''id''"
  from toggleBookmark_shape [OF first] obtain xs where
    xs: "bookmarks st = Arr xs" and nn: "\<not> nullish job" and all: "\<forall>b\<in>set xs. \<not> nullish b"
    by blast
  from toggleBookmark_result [OF xs nn all prim, of now sto] first
  have b1: "bookmarks st1 =
              (if \<exists>b\<in>set xs. prop_of b ''id'' = ?i
               then Arr (filter (\<lambda>b. prop_of b ''id'' \<noteq> ?i) xs) else Arr (xs @ [job]))"
    by auto
  show ?thesis
  proof (cases "\<exists>b\<in>set xs. prop_of b ''id'' = ?i")
    case True
    let ?ys = "filter (\<lambda>b. prop_of b ''id'' \<noteq> ?i) xs"
    from True b1 have ys: "bookmarks st1 = Arr ?ys" by simp
    have all': "\<forall>b\<in>set ?ys. \<not> nullish b" using all by simp
    have prim': "primitive (prop_of job' ''id'')" using prim copy by simp
    from toggleBookmark_result [OF ys copy(1) all' prim', of now' sto1]
    obtain st2 sto2 where "toggleBookmark now' job' st1 sto1 = Inr (st2, sto2)"
      and "bookmarks st2 = Arr (?ys @ [job'])"
      using copy by auto
    moreover have "ids_of (Arr (?ys @ [job'])) = ids_of (Arr xs)"
    proof -
      from True have "?i \<in> (\<lambda>b. prop_of b ''id'') ` set xs"
        by (metis (mono_tags, lifting) image_iff)
      then show ?thesis
        using copy by (auto simp add: ids_of_def)
    qed
    ultimately show ?thesis using xs by auto
  next
    case False
    let ?ys = "xs @ [job]"
    from False b1 have ys: "bookmarks st1 = Arr ?ys" by simp
    have all': "\<forall>b\<in>set ?ys. \<not> nullish b" using all nn by simp
    have prim': "primitive (prop_of job' ''id'')" using prim copy by simp
    from toggleBookmark_result [OF ys copy(1) all' prim', of now' sto1]
    obtain st2 sto2 where "toggleBookmark now' job' st1 sto1 = Inr (st2, sto2)"
      and "bookmarks st2 = Arr (filter (\<lambda>b. prop_of b ''id'' \<noteq> ?i) ?ys)"
      using copy by auto
    moreover have "filter (\<lambda>b. prop_of b ''id'' \<noteq> ?i) ?ys = xs"
      using False by (auto simp add: filter_id_conv)
    ultimately show ?thesis using xs by auto
  qed
qed

lemma toggleBookmark_twice_rendered_example:
  "\<exists>st1 sto1. toggleBookmark stamp job2 (initial_state\<lparr>bookmarks := Arr [job1]\<rparr>) empty_storage
                 = Inr (st1, sto1)
     \<and> primitive (prop_of job2 ''id'') \<and> \<not> nullish job2
     \<and> ids_of (bookmarks st1) = {Num 1, Num 2}
     \<and> (\<exists>st2 sto2. toggleBookmark stamp job2 st1 sto1 = Inr (st2, sto2)
           \<and> ids_of (bookmarks st2) = {Num 1})"
proof -
  let ?st = "initial_state\<lparr>bookmarks := Arr [job1]\<rparr>"
  have b: "bookmarks ?st = Arr [job1]" by simp
  have n: "\<not> nullish job2" "\<forall>b\<in>set [job1]. \<not> nullish b" "primitive (prop_of job2 ''id'')"
    by (simp_all add: job1_def job2_def)
  from toggleBookmark_result [OF b n(1) n(2) n(3), of stamp empty_storage]
  obtain st1 sto1 where
    t1: "toggleBookmark stamp job2 ?st empty_storage = Inr (st1, sto1)"
    and b1: "bookmarks st1 = Arr [job1, job2]"
    by (auto simp add: job1_def job2_def)
  have i1: "ids_of (bookmarks st1) = {Num 1, Num 2}"
    by (simp add: b1 ids_of_def job1_def job2_def)
  have i0: "ids_of (bookmarks ?st) = {Num 1}"
    by (simp add: ids_of_def job1_def)
  from toggleBookmark_twice_rendered [OF t1 n(3) n(1) refl, of stamp] i0
  have "\<exists>st2 sto2. toggleBookmark stamp job2 st1 sto1 = Inr (st2, sto2)
           \<and> ids_of (bookmarks st2) = {Num 1}"
    by simp
  with t1 n i1 show ?thesis by blast
qed

lemma toggle_updater_result:
  assumes "\<not> nullish job" and "\<forall>b\<in>set ss. \<not> nullish b" and "\<forall>b\<in>set xs. \<not> nullish b"
    and "primitive (prop_of job ''id'')"
  shows "\<exists>st' sto'. toggle_updater now (Arr ss) job (Arr xs) st sto = Inr (st', sto')
           \<and> bookmarks st' =
               (if \<exists>b\<in>set ss. prop_of b ''id'' = prop_of job ''id''
                then Arr (filter (\<lambda>b. prop_of b ''id'' \<noteq> prop_of job ''id'') xs)
                else Arr (xs @ [job]))"
  using assms
  by (auto simp add: toggle_updater_def get_id isBookmarked_def
      some_id_all filter_other_all split: prod.splits)

text \<open>
  Claim C7. Two \<^verbatim>\<open>toggleBookmark(job)\<close> calls in succession should leave the set of
  identifiers as it was. The code does not when both calls come from the same render:
  the membership test \<^verbatim>\<open>isBookmarked(job.id)\<close> reads the \<^verbatim>\<open>bookmarks\<close> of the closure, while
  the new array is computed from \<^verbatim>\<open>prevBookmarks\<close>. From the set \<open>[job1]\<close>, toggling \<open>job2\<close>
  twice ends with \<open>[job1, job2, job2]\<close> (identifiers 1 and 2, not 1 alone), and toggling
  \<open>job1\<close> twice ends with the empty array (no identifier, not 1).
\<close>

theorem toggle_updater_stale_closure:
  "(\<exists>st1 sto1 st2 sto2.
      toggle_updater stamp (Arr [job1]) job2 (Arr [job1])
        (initial_state\<lparr>bookmarks := Arr [job1]\<rparr>) empty_storage = Inr (st1, sto1)
      \<and> bookmarks st1 = Arr [job1, job2]
      \<and> toggle_updater stamp (Arr [job1]) job2 (bookmarks st1) st1 sto1 = Inr (st2, sto2)
      \<and> bookmarks st2 = Arr [job1, job2, job2]
      \<and> ids_of (bookmarks st2) = {Num 1, Num 2})
   \<and> (\<exists>st1 sto1 st2 sto2.
      toggle_updater stamp (Arr [job1]) job1 (Arr [job1])
        (initial_state\<lparr>bookmarks := Arr [job1]\<rparr>) empty_storage = Inr (st1, sto1)
      \<and> bookmarks st1 = Arr []
      \<and> toggle_updater stamp (Arr [job1]) job1 (bookmarks st1) st1 sto1 = Inr (st2, sto2)
      \<and> bookmarks st2 = Arr []
      \<and> ids_of (bookmarks st2) = {})
   \<and> ids_of (Arr [job1]) = {Num 1}
   \<and> ids_of (Arr [job1]) \<noteq> {Num 1, Num 2}
   \<and> ids_of (Arr [job1]) \<noteq> {}"
proof -
  let ?st = "initial_state\<lparr>bookmarks := Arr [job1]\<rparr>"
  have n: "\<not> nullish job1" "\<not> nullish job2"
    "primitive (prop_of job1 ''id'')" "primitive (prop_of job2 ''id'')"
    by (simp_all add: job1_def job2_def)
  have s: "\<forall>b\<in>set [job1]. \<not> nullish b" "\<forall>b\<in>set [job1, job2]. \<not> nullish b"
    "\<forall>b\<in>set []. \<not> nullish b"
    using n by simp_all
  have d: "prop_of job1 ''id'' = Num 1" "prop_of job2 ''id'' = Num 2"
    by (simp_all add: job1_def job2_def)
  from toggle_updater_result [OF n(2) s(1) s(1) n(4), of stamp ?st empty_storage]
  obtain a1 b1 where a1:
    "toggle_updater stamp (Arr [job1]) job2 (Arr [job1]) ?st empty_storage = Inr (a1, b1)"
    "bookmarks a1 = Arr [job1, job2]"
    by (auto simp add: d)
  from toggle_updater_result [OF n(2) s(1) s(2) n(4), of stamp a1 b1]
  obtain a2 b2 where a2:
    "toggle_updater stamp (Arr [job1]) job2 (Arr [job1, job2]) a1 b1 = Inr (a2, b2)"
    "bookmarks a2 = Arr [job1, job2, job2]"
    by (auto simp add: d)
  from toggle_updater_result [OF n(1) s(1) s(1) n(3), of stamp ?st empty_storage]
  obtain c1 e1 where c1:
    "toggle_updater stamp (Arr [job1]) job1 (Arr [job1]) ?st empty_storage = Inr (c1, e1)"
    "bookmarks c1 = Arr []"
    by (auto simp add: d)
  from toggle_updater_result [OF n(1) s(1) s(3) n(3), of stamp c1 e1]
  obtain c2 e2 where c2:
    "toggle_updater stamp (Arr [job1]) job1 (Arr []) c1 e1 = Inr (c2, e2)"
    "bookmarks c2 = Arr []"
    by (auto simp add: d)
  have i: "ids_of (Arr [job1, job2, job2]) = {Num 1, Num 2}" "ids_of (Arr []) = {}"
    "ids_of (Arr [job1]) = {Num 1}"
    by (auto simp add: ids_of_def d)
  have p1: "\<exists>st1 sto1 st2 sto2.
      toggle_updater stamp (Arr [job1]) job2 (Arr [job1]) ?st empty_storage = Inr (st1, sto1)
      \<and> bookmarks st1 = Arr [job1, job2]
      \<and> toggle_updater stamp (Arr [job1]) job2 (bookmarks st1) st1 sto1 = Inr (st2, sto2)
      \<and> bookmarks st2 = Arr [job1, job2, job2]
      \<and> ids_of (bookmarks st2) = {Num 1, Num 2}"
    using a1 a2 i by (intro exI [of _ a1] exI [of _ b1] exI [of _ a2] exI [of _ b2]) simp
  have p2: "\<exists>st1 sto1 st2 sto2.
      toggle_updater stamp (Arr [job1]) job1 (Arr [job1]) ?st empty_storage = Inr (st1, sto1)
      \<and> bookmarks st1 = Arr []
      \<and> toggle_updater stamp (Arr [job1]) job1 (bookmarks st1) st1 sto1 = Inr (st2, sto2)
      \<and> bookmarks st2 = Arr []
      \<and> ids_of (bookmarks st2) = {}"
    using c1 c2 i by (intro exI [of _ c1] exI [of _ e1] exI [of _ c2] exI [of _ e2]) simp
  have ne: "ids_of (Arr [job1]) \<noteq> {Num 1, Num 2}" "ids_of (Arr [job1]) \<noteq> {}"
    by (simp_all add: i doubleton_eq_iff)
  from p1 p2 i(3) ne show ?thesis by (intro conjI)
qed

text \<open>
  Claim C10. Membership is strict equality on \<^verbatim>\<open>id\<close>. For a bookmark array without
  \<^verbatim>\<open>null\<close> or \<^verbatim>\<open>undefined\<close> entries and a primitive identifier, \<^verbatim>\<open>isBookmarked\<close> returns true
  exactly when some record has that very value (same type, same value) as its \<^verbatim>\<open>id\<close>; the
  removal branch of \<^verbatim>\<open>toggleBookmark\<close> keeps every record whose \<^verbatim>\<open>id\<close> differs from it and
  removes the others; and a number never matches a string, in either direction.
\<close>

theorem isBookmarked_strict_equality:
  assumes "\<forall>b\<in>set xs. \<not> nullish b" and "primitive jobId"
  shows "isBookmarked (Arr xs) jobId = Inr (\<exists>b\<in>set xs. prop_of b ''id'' = jobId)
         \<and> (\<forall>now job st sto.
               bookmarks st = Arr xs \<and> \<not> nullish job \<and> prop_of job ''id'' = jobId
               \<and> isBookmarked (bookmarks st) jobId = Inr True \<longrightarrow>
               (\<exists>st' sto'. toggleBookmark now job st sto = Inr (st', sto')
                  \<and> bookmarks st' = Arr (filter (\<lambda>b. prop_of b ''id'' \<noteq> jobId) xs)))
         \<and> (\<forall>n s. isBookmarked (Arr [Obj [(''id'', Num n)]]) (Str s) = Inr False
               \<and> isBookmarked (Arr [Obj [(''id'', Str s)]]) (Num n) = Inr False)"
proof -
  have m: "isBookmarked (Arr xs) jobId = Inr (\<exists>b\<in>set xs. prop_of b ''id'' = jobId)"
    using assms by (simp add: isBookmarked_def some_id_all)
  have r: "\<exists>st' sto'. toggleBookmark now job st sto = Inr (st', sto')
             \<and> bookmarks st' = Arr (filter (\<lambda>b. prop_of b ''id'' \<noteq> jobId) xs)"
    if "bookmarks st = Arr xs" "\<not> nullish job" "prop_of job ''id'' = jobId"
      "isBookmarked (bookmarks st) jobId = Inr True" for now job st sto
  proof -
    from that m have ex: "\<exists>b\<in>set xs. prop_of b ''id'' = prop_of job ''id''" by simp
    from assms(2) that(3) have p: "primitive (prop_of job ''id'')" by simp
    from toggleBookmark_result [OF that(1) that(2) assms(1) p, of now sto] ex that(3)
    show ?thesis by auto
  qed
  have d: "isBookmarked (Arr [Obj [(''id'', Num n)]]) (Str s) = Inr False
           \<and> isBookmarked (Arr [Obj [(''id'', Str s)]]) (Num n) = Inr False" for n s
    by (simp add: isBookmarked_def get_id)
  from m r d show ?thesis by blast
qed

theorem isBookmarked_strict_equality_witness:
  "\<not> nullish (Obj [(''id'', Num 5)]) \<and> primitive (Str ''5'') \<and> primitive (Num 5)
   \<and> isBookmarked (Arr [Obj [(''id'', Num 5)]]) (Str ''5'') = Inr False
   \<and> isBookmarked (Arr [Obj [(''id'', Num 5)]]) (Num 5) = Inr True"
proof -
  have a: "\<forall>b\<in>set [Obj [(''id'', Num 5)]]. \<not> nullish b" by simp
  have p: "primitive (Str ''5'')" "primitive (Num 5)" by simp_all
  show ?thesis
    using isBookmarked_strict_equality [OF a p(1)] isBookmarked_strict_equality [OF a p(2)]
    by simp
qed

section \<open>Clearing and repairing\<close>

text \<open>
  Claim C9. \<^verbatim>\<open>clearBookmarks\<close> never changes what any key other than the primary key
  holds, the backup key in particular. When the user confirms (and the platform does not
  reject the call), its one storage call removes the primary key and the bookmark set
  becomes the empty array. When the user cancels, the storage and the bookmark set are as
  before.
\<close>

theorem clearBookmarks_frame:
  "clearBookmarks confirmed st sto = (st', sto') \<Longrightarrow>
     (\<forall>k. k \<noteq> primary_key \<longrightarrow> items sto' k = items sto k)
     \<and> items sto' backup_key = items sto backup_key
     \<and> (confirmed \<and> \<not> fault_at 0 sto \<longrightarrow>
          items sto' primary_key = None \<and> bookmarks st' = Arr []
          \<and> calls sto' = calls sto @ [RemoveItem primary_key])
     \<and> (\<not> confirmed \<longrightarrow> sto' = sto \<and> bookmarks st' = bookmarks st)"
  by (auto simp add: clearBookmarks_def removeItem_def next_fault_at Let_def split: if_splits)

theorem clearBookmarks_frame_witness:
  "\<not> fault_at 0 saved_storage
   \<and> (\<exists>st' sto'. clearBookmarks True (initial_state\<lparr>bookmarks := Arr [job1]\<rparr>) saved_storage
                   = (st', sto')
        \<and> items sto' primary_key = None
        \<and> items sto' backup_key = Some (Json (bookmarksData stamp [job1]))
        \<and> bookmarks st' = Arr [])
   \<and> (\<exists>st' sto'. clearBookmarks False (initial_state\<lparr>bookmarks := Arr [job1]\<rparr>) saved_storage
                   = (st', sto')
        \<and> sto' = saved_storage \<and> bookmarks st' = Arr [job1])"
proof -
  let ?st = "initial_state\<lparr>bookmarks := Arr [job1]\<rparr>"
  obtain a b where ab: "clearBookmarks True ?st saved_storage = (a, b)"
    by (cases "clearBookmarks True ?st saved_storage")
  obtain c d where cd: "clearBookmarks False ?st saved_storage = (c, d)"
    by (cases "clearBookmarks False ?st saved_storage")
  have f: "\<not> fault_at 0 saved_storage"
    by (simp add: saved_storage_def fault_at_def)
  have i: "items saved_storage backup_key = Some (Json (bookmarksData stamp [job1]))"
    by (simp add: saved_storage_def)
  show ?thesis
    using clearBookmarks_frame [OF ab] clearBookmarks_frame [OF cd] ab cd f i by simp
qed

text \<open>
  What \<^verbatim>\<open>verifyAndRepairBookmarks\<close> does to the storage and returns when none of its
  storage calls is rejected. The primary key is missing and the backup key holds a JSON
  text: that text is copied to the primary key and its parsed value is returned. Both
  keys are missing: the empty array is returned and nothing is written. The primary key
  holds a JSON text: its parsed value is returned and nothing is written.
\<close>

lemma verifyAndRepairBookmarks_cases:
  assumes "\<not> fault_at 0 sto" and "\<not> fault_at 1 sto" and "\<not> fault_at 2 sto"
  shows "(items sto primary_key = None \<and> items sto backup_key = Some (Json v) \<longrightarrow>
            fst (verifyAndRepairBookmarks sto) = v
            \<and> items (snd (verifyAndRepairBookmarks sto)) = (items sto)(primary_key \<mapsto> Json v))
         \<and> (items sto primary_key = None \<and> items sto backup_key = None \<longrightarrow>
            fst (verifyAndRepairBookmarks sto) = Arr []
            \<and> items (snd (verifyAndRepairBookmarks sto)) = items sto)
         \<and> (items sto primary_key = Some (Json v) \<longrightarrow>
            fst (verifyAndRepairBookmarks sto) = v
            \<and> items (snd (verifyAndRepairBookmarks sto)) = items sto)"
proof -
  have f: "\<not> fault_at 0 sto" "\<not> fault_at (Suc 0) sto" "\<not> fault_at (Suc (Suc 0)) sto"
    using assms by (simp_all add: numeral_2_eq_2)
  show ?thesis
    using f
    by (simp add: verifyAndRepairBookmarks_def getItem_def setItem_def next_fault_at
        fault_at_issue parse_or_empty_def JSON_parse_def)
qed

lemma verifyAndRepairBookmarks_cases_example:
  "\<not> fault_at 0 backup_only_storage \<and> \<not> fault_at 1 backup_only_storage
   \<and> \<not> fault_at 2 backup_only_storage
   \<and> items backup_only_storage primary_key = None
   \<and> items backup_only_storage backup_key = Some (Json (bookmarksData stamp [job1]))
   \<and> fst (verifyAndRepairBookmarks backup_only_storage) = bookmarksData stamp [job1]
   \<and> items (snd (verifyAndRepairBookmarks backup_only_storage)) primary_key
       = Some (Json (bookmarksData stamp [job1]))
   \<and> fst (verifyAndRepairBookmarks empty_storage) = Arr []"
proof -
  have a: "\<not> fault_at 0 backup_only_storage" "\<not> fault_at 1 backup_only_storage"
    "\<not> fault_at 2 backup_only_storage"
    by (simp_all add: backup_only_storage_def fault_at_def)
  have b: "\<not> fault_at 0 empty_storage" "\<not> fault_at 1 empty_storage"
    "\<not> fault_at 2 empty_storage"
    by (simp_all add: empty_storage_def fault_at_def)
  have c: "items backup_only_storage primary_key = None"
    "items backup_only_storage backup_key = Some (Json (bookmarksData stamp [job1]))"
    "items empty_storage primary_key = None" "items empty_storage backup_key = None"
    by (simp_all add: backup_only_storage_def empty_storage_def)
  show ?thesis
    using verifyAndRepairBookmarks_cases [OF a, of "bookmarksData stamp [job1]"]
      verifyAndRepairBookmarks_cases [OF b, of Null] a c
    by simp
qed

lemma cleared_storage_eq:
  "cleared_storage =
     \<lparr>items = [backup_key \<mapsto> Json (bookmarksData stamp [job1])],
      faults = [],
      calls = [SetItem primary_key (Json (bookmarksData stamp [job1])),
               SetItem backup_key (Json (bookmarksData stamp [job1])),
               RemoveItem primary_key]\<rparr>"
  by (simp add: cleared_storage_def save_job1 clearBookmarks_def removeItem_def next_fault_def
      issue_def Let_def fun_upd_twist)

text \<open>
  Claim C8. With the primary key missing and the backup key holding data,
  \<^verbatim>\<open>verifyAndRepairBookmarks\<close> should copy the backup to the primary key and return the
  restored set. On the storage left by saving \<open>[job1]\<close> and clearing all bookmarks, the
  copy is made, but the value returned is the parsed bundle with \<^verbatim>\<open>timestamp\<close> and \<^verbatim>\<open>jobs\<close>,
  not the array \<open>[job1]\<close>, and the membership query throws on it: \<^verbatim>\<open>.jobs\<close> is not taken,
  as in \<^verbatim>\<open>loadBookmarks\<close>. With an unparseable primary entry and a good backup, the empty
  array is returned and the primary entry is left as it is.
\<close>

theorem verifyAndRepairBookmarks_returns_bundle:
  "items cleared_storage primary_key = None
   \<and> items cleared_storage backup_key = Some (Json (bookmarksData stamp [job1]))
   \<and> fst (verifyAndRepairBookmarks cleared_storage)
        = Obj [(''timestamp'', Str stamp), (''jobs'', Arr [job1])]
   \<and> fst (verifyAndRepairBookmarks cleared_storage) \<noteq> Arr [job1]
   \<and> isBookmarked (fst (verifyAndRepairBookmarks cleared_storage)) (Num 1) = Inl TypeError
   \<and> items (snd (verifyAndRepairBookmarks cleared_storage)) primary_key
        = Some (Json (bookmarksData stamp [job1]))
   \<and> fst (verifyAndRepairBookmarks corrupted_storage) = Arr []
   \<and> items (snd (verifyAndRepairBookmarks corrupted_storage)) primary_key = Some Malformed"
  by (simp add: cleared_storage_eq corrupted_storage_def verifyAndRepairBookmarks_def
      getItem_def setItem_def next_fault_def issue_def parse_or_empty_def JSON_parse_def
      bookmarksData_def isBookmarked_def)

end
